theory Spec2Isabelle
  imports Main "HOL-Library.Word"
begin

section \<open>The script builder of \<open>sc/scriptBuilder.go\<close>\<close>

text \<open>
  The builder owns a byte buffer and a list of recorded errors. Every method of the Go
  type \<open>ScriptBuilder\<close> is a function that takes the builder and returns the updated one.
  A Go \<open>error\<close> value is represented by its message. A method that can panic (a failed
  type assertion, a nil pointer) returns \<open>panic + ScriptBuilder\<close>.
\<close>

subsection \<open>Bytes, op codes and the builder state\<close>

type_synonym byte = "8 word"
type_synonym OpCode = "8 word"

record ScriptBuilder =
  buff :: "byte list"
  errs :: "string list"

datatype panic = TypeAssertion | NilDereference

text \<open>
  Modelled from the spec: the declarations of the \<open>OpCode\<close> constants are not part of the
  source at hand. The values are those of the virtual machine's instruction set the spec
  refers to (section 6): the push-integer codes by width, the push-data codes by prefix
  width, seventeen consecutive small-integer codes from \<open>PUSHM1\<close> to \<open>PUSH16\<close>, and jump
  and call codes in pairs of an even short form and the long form one greater.
\<close>

definition PUSHINT8 :: OpCode where "PUSHINT8 = 0x00"
definition PUSHINT16 :: OpCode where "PUSHINT16 = 0x01"
definition PUSHINT32 :: OpCode where "PUSHINT32 = 0x02"
definition PUSHINT64 :: OpCode where "PUSHINT64 = 0x03"
definition PUSHINT128 :: OpCode where "PUSHINT128 = 0x04"
definition PUSHINT256 :: OpCode where "PUSHINT256 = 0x05"
definition PUSHNULL :: OpCode where "PUSHNULL = 0x0B"
definition PUSHDATA1 :: OpCode where "PUSHDATA1 = 0x0C"
definition PUSHDATA2 :: OpCode where "PUSHDATA2 = 0x0D"
definition PUSHDATA4 :: OpCode where "PUSHDATA4 = 0x0E"
definition PUSHM1 :: OpCode where "PUSHM1 = 0x0F"
definition PUSH0 :: OpCode where "PUSH0 = 0x10"
definition PUSH1 :: OpCode where "PUSH1 = 0x11"
definition JMP :: OpCode where "JMP = 0x22"
definition JMPLE_L :: OpCode where "JMPLE_L = 0x33"
definition CALL :: OpCode where "CALL = 0x34"
definition CALL_L :: OpCode where "CALL_L = 0x35"
definition SYSCALL :: OpCode where "SYSCALL = 0x41"
definition DUP :: OpCode where "DUP = 0x4A"
definition PACK :: OpCode where "PACK = 0xC0"
definition NEWARRAY0 :: OpCode where "NEWARRAY0 = 0xC2"
definition NEWMAP :: OpCode where "NEWMAP = 0xC8"
definition SETITEM :: OpCode where "SETITEM = 0xD0"

subsection \<open>The helper package\<close>

text \<open>
  Modelled from the spec: \<open>helper.BigIntToNeoBytes\<close> is not part of the source at hand.
  The spec (section 4.2) has it compute the minimal two's-complement little-endian byte
  representation of the value: the low byte first, one byte when the value lies in
  \<open>[-128, 127]\<close>, otherwise the low byte followed by the representation of the value
  shifted right by eight bits.
\<close>

function BigIntToNeoBytes :: "int \<Rightarrow> byte list" where
  "BigIntToNeoBytes n =
     (if - 128 \<le> n \<and> n \<le> 127 then [word_of_int n]
      else word_of_int n # BigIntToNeoBytes (n div 256))"
  by pat_completeness auto
termination
  by (relation "measure (\<lambda>n. nat \<bar>n\<bar>)") auto

declare BigIntToNeoBytes.simps [simp del]

text \<open>
  Modelled from the spec: \<open>helper.PadRight\<close> is not part of the source at hand; the calls
  pass it the bytes and the width only. The spec (section 4.2) has the representation
  padded on the high end to the class width with the sign-extension byte, \<open>0x00\<close> for a
  non-negative and \<open>0xFF\<close> for a negative value; the sign of a two's-complement
  representation is the top bit of its last byte. Section 9 calls the helper a
  truncation and padding helper: bytes beyond the width are cut off.
\<close>

definition sign_byte :: "byte list \<Rightarrow> byte" where
  "sign_byte data = (if data \<noteq> [] \<and> 128 \<le> last data then 0xFF else 0x00)"

definition PadRight :: "byte list \<Rightarrow> nat \<Rightarrow> byte list" where
  "PadRight data n =
     (if n \<le> length data then take n data
      else data @ replicate (n - length data) (sign_byte data))"

text \<open>
  Modelled from the spec: \<open>helper.UInt16ToBytes\<close>, \<open>helper.UInt32ToBytes\<close> and
  \<open>helper.IntToBytes\<close> are not part of the source at hand. The spec has a length encoded
  little-endian at two or four bytes (section 4.2) and an offset encoded as a 4-byte
  little-endian signed integer (section 4.3).
\<close>

definition UInt16ToBytes :: "16 word \<Rightarrow> byte list" where
  "UInt16ToBytes x = [ucast x, ucast (drop_bit 8 x)]"

definition UInt32ToBytes :: "32 word \<Rightarrow> byte list" where
  "UInt32ToBytes x = [ucast x, ucast (drop_bit 8 x), ucast (drop_bit 16 x), ucast (drop_bit 24 x)]"

definition IntToBytes :: "int \<Rightarrow> byte list" where
  "IntToBytes n = UInt32ToBytes (word_of_int n)"

text \<open>Reading bytes back: as an unsigned and as a two's-complement little-endian number.\<close>

fun le_nat :: "byte list \<Rightarrow> nat" where
  "le_nat [] = 0"
| "le_nat (b # bs) = unat b + 256 * le_nat bs"

fun le_int :: "byte list \<Rightarrow> int" where
  "le_int [] = 0"
| "le_int [b] = sint b"
| "le_int (b # bs) = uint b + 256 * le_int bs"

subsection \<open>The emitter\<close>

definition NewScriptBuilder :: ScriptBuilder where
  "NewScriptBuilder = \<lparr>buff = [], errs = []\<rparr>"

text \<open>\<open>addError\<close> takes the error or nil.\<close>

definition addError :: "string option \<Rightarrow> ScriptBuilder \<Rightarrow> ScriptBuilder" where
  "addError err sb = (case err of None \<Rightarrow> sb | Some e \<Rightarrow> sb\<lparr>errs := errs sb @ [e]\<rparr>)"

text \<open>
  The final error of \<open>ToArray\<close> is \<open>fmt.Errorf\<close> applied to the joined messages as its
  format, with no operands. A text without \<open>%\<close> is the message of the error. In a text
  with \<open>%\<close> the formatter of the Go library expands the verb; that expansion is not
  modelled, the error is kept as \<open>Formatted\<close> with its format.
\<close>

datatype goerror = Message string | Formatted string

definition Errorf :: "string \<Rightarrow> goerror" where
  "Errorf format = (if CHR ''%'' \<in> set format then Formatted format else Message format)"

fun Join :: "string list \<Rightarrow> string \<Rightarrow> string" where
  "Join [] sep = []"
| "Join [s] sep = s"
| "Join (s # ss) sep = s @ sep @ Join ss sep"

definition ToArray :: "ScriptBuilder \<Rightarrow> byte list \<times> goerror option" where
  "ToArray sb =
     (if length (errs sb) = 0 then (buff sb, None)
      else (buff sb, Some (Errorf (Join (errs sb) [CHR 0x0A]))))"

text \<open>
  \<open>Emit\<close>: the variadic argument is nil when no byte is passed. Writing to the buffer
  returns no error, so \<open>addError\<close> receives nil both times.
\<close>

definition Emit :: "OpCode \<Rightarrow> byte list option \<Rightarrow> ScriptBuilder \<Rightarrow> ScriptBuilder" where
  "Emit op arg sb =
     (let sb1 = addError None (sb\<lparr>buff := buff sb @ [op]\<rparr>)
      in case arg of
           None \<Rightarrow> sb1
         | Some bs \<Rightarrow> addError None (sb1\<lparr>buff := buff sb1 @ bs\<rparr>))"

text \<open>Offsets are Go \<open>int\<close> values; \<open>byte(offset)\<close> keeps the low eight bits.\<close>

definition EmitCall :: "int \<Rightarrow> ScriptBuilder \<Rightarrow> ScriptBuilder" where
  "EmitCall offset sb =
     (if offset < - 128 \<or> offset > 127 then Emit CALL_L (Some (IntToBytes offset)) sb
      else Emit CALL (Some [word_of_int offset]) sb)"

definition EmitJump :: "OpCode \<Rightarrow> int \<Rightarrow> ScriptBuilder \<Rightarrow> ScriptBuilder" where
  "EmitJump op offset sb =
     (let sb1 = (if op < JMP \<or> op > JMPLE_L
                 then addError (Some ''argument out of range: invalid OpCode'') sb else sb);
          op1 = (if uint op mod 2 = 0 \<and> (offset < - 128 \<or> offset > 127) then op + 1 else op)
      in if uint op1 mod 2 = 0 then Emit op1 (Some [word_of_int offset]) sb1
         else Emit op1 (Some (IntToBytes offset)) sb1)"

text \<open>\<open>EmitPushBigInt\<close>: the argument is the value of the big integer.\<close>

definition EmitPushBigInt :: "int \<Rightarrow> ScriptBuilder \<Rightarrow> ScriptBuilder" where
  "EmitPushBigInt number sb =
     (if number \<ge> - 1 \<and> number \<le> 16 then
        (let b = (word_of_int number :: byte) in Emit (PUSH0 + b) None sb)
      else
        (let data = BigIntToNeoBytes number in
         if length data = 1 then Emit PUSHINT8 (Some data) sb
         else if length data = 2 then Emit PUSHINT16 (Some data) sb
         else if length data \<le> 4 then Emit PUSHINT32 (Some (PadRight data 4)) sb
         else if length data \<le> 8 then Emit PUSHINT64 (Some (PadRight data 8)) sb
         else if length data \<le> 16 then Emit PUSHINT128 (Some (PadRight data 16)) sb
         else if length data \<le> 32 then Emit PUSHINT256 (Some (PadRight data 32)) sb
         else addError (Some ''argument out of range: number'') sb))"

definition EmitPushBool :: "bool \<Rightarrow> ScriptBuilder \<Rightarrow> ScriptBuilder" where
  "EmitPushBool data sb = (if data then Emit PUSH1 None sb else Emit PUSH0 None sb)"

text \<open>
  \<open>EmitPushBytes\<close>: a Go slice is nil (\<open>None\<close>) or holds bytes, possibly none. The test
  of the source is \<open>data == nil\<close>. The length is a Go \<open>int\<close>; \<open>byte(l)\<close>, \<open>uint16(l)\<close>
  and \<open>uint32(l)\<close> keep its low bits.
\<close>

definition EmitPushBytes :: "byte list option \<Rightarrow> ScriptBuilder \<Rightarrow> ScriptBuilder" where
  "EmitPushBytes data sb =
     (case data of
        None \<Rightarrow> addError (Some ''data is empty'') sb
      | Some d \<Rightarrow>
          (let l = length d in
           if l < 0x100 then
             (let sb1 = Emit PUSHDATA1 None sb;
                  sb2 = sb1\<lparr>buff := buff sb1 @ [of_nat l]\<rparr>
              in sb2\<lparr>buff := buff sb2 @ d\<rparr>)
           else if l < 0x10000 then
             (let sb1 = Emit PUSHDATA2 None sb;
                  sb2 = sb1\<lparr>buff := buff sb1 @ UInt16ToBytes (of_nat l)\<rparr>
              in sb2\<lparr>buff := buff sb2 @ d\<rparr>)
           else
             (let sb1 = Emit PUSHDATA4 None sb;
                  sb2 = sb1\<lparr>buff := buff sb1 @ UInt32ToBytes (of_nat l)\<rparr>
              in sb2\<lparr>buff := buff sb2 @ d\<rparr>)))"

text \<open>
  \<open>EmitPushString\<close>: a Go string is a sequence of bytes (its UTF-8 text); the conversion
  to a slice gives those bytes in a slice that is not nil.
\<close>

definition EmitPushString :: "string \<Rightarrow> ScriptBuilder \<Rightarrow> ScriptBuilder" where
  "EmitPushString data sb = EmitPushBytes (Some (map of_char data)) sb"

definition EmitRaw :: "byte list option \<Rightarrow> ScriptBuilder \<Rightarrow> ScriptBuilder" where
  "EmitRaw arg sb = (case arg of None \<Rightarrow> sb | Some bs \<Rightarrow> sb\<lparr>buff := buff sb @ bs\<rparr>)"

text \<open>\<open>EmitSysCall\<close>: the argument is a Go \<open>uint\<close> of 64 bits.\<close>

definition EmitSysCall :: "64 word \<Rightarrow> ScriptBuilder \<Rightarrow> ScriptBuilder" where
  "EmitSysCall api sb = Emit SYSCALL (Some (UInt32ToBytes (ucast api))) sb"

subsection \<open>Values of dynamic type\<close>

text \<open>
  Modelled from the spec: the package \<open>io\<close> is not part of the source at hand. An
  \<open>io.ISerializable\<close> is a pointer to a 160-bit or a 256-bit identifier, represented by
  its canonical byte serialization (spec, section 6), or another object, represented by
  what \<open>io.ToArray\<close> returns for it: the bytes (or nil) and the error (or nil).
\<close>

datatype ISerializable =
    UInt160 "byte list"
  | UInt256 "byte list"
  | OtherSerializable "byte list option" "string option"

fun io_ToArray :: "ISerializable \<Rightarrow> byte list option \<times> string option" where
  "io_ToArray (UInt160 h) = (Some h, None)"
| "io_ToArray (UInt256 h) = (Some h, None)"
| "io_ToArray (OtherSerializable b e) = (b, e)"

text \<open>
  The type tags of a \<open>ContractParameter\<close> that \<open>EmitPushParameter\<close> names, and
  \<open>OtherType\<close> for every other tag.
\<close>

datatype ContractParameterType =
    Signature | ByteArray | Boolean | Integer | Hash160 | Hash256 | PublicKey
  | String | Array | Map | OtherType

text \<open>
  A value of type \<open>interface{}\<close> by its runtime type: the nil interface, the types the
  type switches and type assertions of the source name, and \<open>OtherV\<close> for any other
  type. A slice of bytes and a map may be nil inside the interface. \<open>CallFlagsV\<close> holds
  the flags as the integer the conversion to \<open>int64\<close> gives. Go's \<open>int\<close> and \<open>uint\<close>
  have 64 bits. A map is the list of its pairs in the order the \<open>range\<close> loop visits them.
\<close>

datatype any =
    Nil
  | CallFlagsV int
  | BoolV bool
  | BytesV "byte list option"
  | StringV string
  | BigIntV int
  | BigIntPtrV "int option"
  | SerializableV ISerializable
  | Int8V "8 word" | Uint8V "8 word"
  | Int16V "16 word" | Uint16V "16 word"
  | Int32V "32 word" | Uint32V "32 word"
  | Int64V "64 word" | Uint64V "64 word"
  | IntV "64 word" | UintV "64 word"
  | ParameterV ContractParameter
  | TypesNilV
  | ParametersV "ContractParameter list"
  | MapV "(any \<times> any) list option"
  | OtherV
and ContractParameter =
    ContractParameter (Type: ContractParameterType) (Value: any)

subsection \<open>The value encoders\<close>

text \<open>\<open>EmitPushInteger\<close>: every case converts to \<open>int64\<close> first.\<close>

fun EmitPushInteger :: "any \<Rightarrow> ScriptBuilder \<Rightarrow> ScriptBuilder" where
  "EmitPushInteger (Int8V x) sb = EmitPushBigInt (sint x) sb"
| "EmitPushInteger (Uint8V x) sb = EmitPushBigInt (uint x) sb"
| "EmitPushInteger (Int16V x) sb = EmitPushBigInt (sint x) sb"
| "EmitPushInteger (Uint16V x) sb = EmitPushBigInt (uint x) sb"
| "EmitPushInteger (Int32V x) sb = EmitPushBigInt (sint x) sb"
| "EmitPushInteger (Uint32V x) sb = EmitPushBigInt (uint x) sb"
| "EmitPushInteger (Int64V x) sb = EmitPushBigInt (sint x) sb"
| "EmitPushInteger (Uint64V x) sb = EmitPushBigInt (sint x) sb"
| "EmitPushInteger (IntV x) sb = EmitPushBigInt (sint x) sb"
| "EmitPushInteger (UintV x) sb = EmitPushBigInt (sint x) sb"
| "EmitPushInteger _ sb = addError (Some ''param is not of integer type'') sb"

definition EmitPushSerializable :: "ISerializable \<Rightarrow> ScriptBuilder \<Rightarrow> ScriptBuilder" where
  "EmitPushSerializable data sb =
     (case io_ToArray data of (b, e) \<Rightarrow> EmitPushBytes b (addError e sb))"

text \<open>
  \<open>EmitPushParameter\<close>, \<open>EmitPushObject\<close> and \<open>CreateMap\<close> call each other. A type
  assertion \<open>x.(T)\<close> on a value of another runtime type panics. The loop of the
  \<open>Array\<close> case runs the index from the last element down to the first:
  \<open>EmitPushParameter_down\<close> pushes the elements after the head before the head.
  \<open>CreateMap_range\<close> is the \<open>range\<close> loop over the pairs.
\<close>

function (sequential)
  EmitPushParameter :: "ContractParameter \<Rightarrow> ScriptBuilder \<Rightarrow> panic + ScriptBuilder"
and EmitPushParameter_down :: "ContractParameter list \<Rightarrow> ScriptBuilder \<Rightarrow> panic + ScriptBuilder"
and EmitPushObject :: "any \<Rightarrow> ScriptBuilder \<Rightarrow> panic + ScriptBuilder"
and CreateMap :: "(any \<times> any) list option \<Rightarrow> ScriptBuilder \<Rightarrow> panic + ScriptBuilder"
and CreateMap_range :: "(any \<times> any) list \<Rightarrow> ScriptBuilder \<Rightarrow> panic + ScriptBuilder"
where
  "EmitPushParameter (ContractParameter t v) sb =
     (if v = Nil then Inr (Emit PUSHNULL None sb)
      else case t of
        Signature \<Rightarrow>
          (case v of BytesV d \<Rightarrow> Inr (EmitPushBytes d sb) | _ \<Rightarrow> Inl TypeAssertion)
      | ByteArray \<Rightarrow>
          (case v of BytesV d \<Rightarrow> Inr (EmitPushBytes d sb) | _ \<Rightarrow> Inl TypeAssertion)
      | Boolean \<Rightarrow>
          (case v of BoolV b \<Rightarrow> Inr (EmitPushBool b sb) | _ \<Rightarrow> Inl TypeAssertion)
      | Integer \<Rightarrow> EmitPushObject v sb
      | Hash160 \<Rightarrow>
          (case v of
             SerializableV (UInt160 h) \<Rightarrow> Inr (EmitPushSerializable (UInt160 h) sb)
           | _ \<Rightarrow> Inl TypeAssertion)
      | Hash256 \<Rightarrow>
          (case v of
             SerializableV (UInt256 h) \<Rightarrow> Inr (EmitPushSerializable (UInt256 h) sb)
           | _ \<Rightarrow> Inl TypeAssertion)
      | PublicKey \<Rightarrow>
          (case v of BytesV d \<Rightarrow> Inr (EmitPushBytes d sb) | _ \<Rightarrow> Inl TypeAssertion)
      | String \<Rightarrow>
          (case v of StringV s \<Rightarrow> Inr (EmitPushString s sb) | _ \<Rightarrow> Inl TypeAssertion)
      | Array \<Rightarrow>
          (case v of
             ParametersV a \<Rightarrow>
               (case EmitPushParameter_down a sb of
                  Inl p \<Rightarrow> Inl p
                | Inr sb1 \<Rightarrow>
                    Inr (Emit PACK None (EmitPushInteger (IntV (of_nat (length a))) sb1)))
           | _ \<Rightarrow> Inl TypeAssertion)
      | Map \<Rightarrow>
          (case v of MapV pairs \<Rightarrow> CreateMap pairs sb | _ \<Rightarrow> Inl TypeAssertion)
      | OtherType \<Rightarrow> Inr (addError (Some ''invalid param type'') sb))"
| "EmitPushParameter_down [] sb = Inr sb"
| "EmitPushParameter_down (p # ps) sb =
     (case EmitPushParameter_down ps sb of
        Inl e \<Rightarrow> Inl e
      | Inr sb1 \<Rightarrow> EmitPushParameter p sb1)"
| "EmitPushObject obj sb =
     (case obj of
        CallFlagsV f \<Rightarrow> Inr (EmitPushBigInt f sb)
      | BoolV b \<Rightarrow> Inr (EmitPushBool b sb)
      | BytesV d \<Rightarrow> Inr (EmitPushBytes d sb)
      | StringV s \<Rightarrow> Inr (EmitPushString s sb)
      | BigIntV n \<Rightarrow> Inr (EmitPushBigInt n sb)
      | BigIntPtrV p \<Rightarrow>
          (case p of None \<Rightarrow> Inl NilDereference | Some n \<Rightarrow> Inr (EmitPushBigInt n sb))
      | SerializableV s \<Rightarrow> Inr (EmitPushSerializable s sb)
      | Int8V x \<Rightarrow> Inr (EmitPushInteger obj sb)
      | Uint8V x \<Rightarrow> Inr (EmitPushInteger obj sb)
      | Int16V x \<Rightarrow> Inr (EmitPushInteger obj sb)
      | Uint16V x \<Rightarrow> Inr (EmitPushInteger obj sb)
      | Int32V x \<Rightarrow> Inr (EmitPushInteger obj sb)
      | Uint32V x \<Rightarrow> Inr (EmitPushInteger obj sb)
      | Int64V x \<Rightarrow> Inr (EmitPushInteger obj sb)
      | Uint64V x \<Rightarrow> Inr (EmitPushInteger obj sb)
      | IntV x \<Rightarrow> Inr (EmitPushInteger obj sb)
      | UintV x \<Rightarrow> Inr (EmitPushInteger obj sb)
      | ParameterV p \<Rightarrow> EmitPushParameter p sb
      | TypesNilV \<Rightarrow> Inr (Emit PUSHNULL None sb)
      | _ \<Rightarrow> Inr (addError (Some ''invalid argument type'') sb))"
| "CreateMap m sb =
     (let sb1 = Emit NEWMAP None sb
      in case m of None \<Rightarrow> Inr sb1 | Some pairs \<Rightarrow> CreateMap_range pairs sb1)"
| "CreateMap_range [] sb = Inr sb"
| "CreateMap_range ((k, v) # pairs) sb =
     (case EmitPushObject k (Emit DUP None sb) of
        Inl e \<Rightarrow> Inl e
      | Inr sb1 \<Rightarrow>
          (case EmitPushObject v sb1 of
             Inl e \<Rightarrow> Inl e
           | Inr sb2 \<Rightarrow> CreateMap_range pairs (Emit SETITEM None sb2)))"
  by pat_completeness auto
termination
  by (relation "measure (\<lambda>x. case x of
        Inl (Inl (p, sb)) \<Rightarrow> size p
      | Inl (Inr (ps, sb)) \<Rightarrow> size_list size ps
      | Inr (Inl (obj, sb)) \<Rightarrow> size obj
      | Inr (Inr (Inl (m, sb))) \<Rightarrow> size_option (size_list (size_prod size size)) m
      | Inr (Inr (Inr (pairs, sb))) \<Rightarrow> size_list (size_prod size size) pairs)") auto

text \<open>
  The loops of \<open>CreateArray\<close>, \<open>EmitDynamicCallObj\<close> and \<open>EmitSysCallWithParam\<close> run the
  index from the last element down to the first, as the loop of the \<open>Array\<close> case does.
\<close>

fun EmitPushObject_down :: "any list \<Rightarrow> ScriptBuilder \<Rightarrow> panic + ScriptBuilder" where
  "EmitPushObject_down [] sb = Inr sb"
| "EmitPushObject_down (x # xs) sb =
     (case EmitPushObject_down xs sb of
        Inl e \<Rightarrow> Inl e
      | Inr sb1 \<Rightarrow> EmitPushObject x sb1)"

text \<open>\<open>CreateArray\<close>: the slice is nil (\<open>None\<close>) or a list; \<open>len(list)\<close> is a Go \<open>int\<close>.\<close>

definition CreateArray :: "any list option \<Rightarrow> ScriptBuilder \<Rightarrow> panic + ScriptBuilder" where
  "CreateArray list sb =
     (case list of
        None \<Rightarrow> Inr (Emit NEWARRAY0 None sb)
      | Some l \<Rightarrow>
          if length l = 0 then Inr (Emit NEWARRAY0 None sb)
          else (case EmitPushObject_down l sb of
                  Inl e \<Rightarrow> Inl e
                | Inr sb1 \<Rightarrow>
                    Inr (Emit PACK None (EmitPushInteger (IntV (of_nat (length l))) sb1))))"

fun EmitOpCodes :: "OpCode list \<Rightarrow> ScriptBuilder \<Rightarrow> ScriptBuilder" where
  "EmitOpCodes [] sb = sb"
| "EmitOpCodes (op # ops) sb = EmitOpCodes ops (Emit op None sb)"

subsection \<open>The invocation composer\<close>

text \<open>
  Modelled from the spec: the call-flags constant \<open>All\<close> and the interop hash
  \<open>Call.ToInteropMethodHash()\<close> are declared outside the source at hand. The spec treats
  both as opaque constants (sections 3 and 6), so the functions below take them as their
  first two arguments (\<open>AllFlags\<close>, \<open>CallHash\<close>): \<open>All\<close> as the integer the flags convert to, \<open>CallHash\<close> as the
  \<open>uint\<close> the registry returns. The target identity is a 160-bit identifier, given by
  its canonical serialization.
\<close>

definition EmitDynamicCall ::
  "int \<Rightarrow> 64 word \<Rightarrow> byte list \<Rightarrow> string \<Rightarrow> ScriptBuilder \<Rightarrow> panic + ScriptBuilder" where
  "EmitDynamicCall AllFlags CallHash scriptHash operation sb =
     (case EmitPushObject (CallFlagsV AllFlags) (Emit NEWARRAY0 None sb) of
        Inl e \<Rightarrow> Inl e
      | Inr sb1 \<Rightarrow>
          Inr (EmitSysCall CallHash
                 (EmitPushSerializable (UInt160 scriptHash) (EmitPushString operation sb1))))"

definition EmitDynamicCallParam ::
  "int \<Rightarrow> 64 word \<Rightarrow> byte list \<Rightarrow> string \<Rightarrow> ContractParameter list \<Rightarrow> ScriptBuilder
     \<Rightarrow> panic + ScriptBuilder" where
  "EmitDynamicCallParam AllFlags CallHash scriptHash operation args sb =
     (case EmitPushParameter_down args sb of
        Inl e \<Rightarrow> Inl e
      | Inr sb1 \<Rightarrow>
          (case EmitPushObject (CallFlagsV AllFlags)
                  (Emit PACK None (EmitPushInteger (IntV (of_nat (length args))) sb1)) of
             Inl e \<Rightarrow> Inl e
           | Inr sb2 \<Rightarrow>
               Inr (EmitSysCall CallHash
                      (EmitPushSerializable (UInt160 scriptHash)
                         (EmitPushString operation sb2)))))"

definition EmitDynamicCallObj ::
  "int \<Rightarrow> 64 word \<Rightarrow> byte list \<Rightarrow> string \<Rightarrow> any list \<Rightarrow> ScriptBuilder
     \<Rightarrow> panic + ScriptBuilder" where
  "EmitDynamicCallObj AllFlags CallHash scriptHash operation objs sb =
     (case EmitPushObject_down objs sb of
        Inl e \<Rightarrow> Inl e
      | Inr sb1 \<Rightarrow>
          (case EmitPushObject (CallFlagsV AllFlags)
                  (Emit PACK None (EmitPushInteger (IntV (of_nat (length objs))) sb1)) of
             Inl e \<Rightarrow> Inl e
           | Inr sb2 \<Rightarrow>
               Inr (EmitSysCall CallHash
                      (EmitPushSerializable (UInt160 scriptHash)
                         (EmitPushString operation sb2)))))"

definition EmitSysCallWithParam ::
  "64 word \<Rightarrow> any list option \<Rightarrow> ScriptBuilder \<Rightarrow> panic + ScriptBuilder" where
  "EmitSysCallWithParam method args sb =
     (case args of
        None \<Rightarrow> Inr (EmitSysCall method sb)
      | Some l \<Rightarrow>
          (case EmitPushObject_down l sb of
             Inl e \<Rightarrow> Inl e
           | Inr sb1 \<Rightarrow> Inr (EmitSysCall method sb1)))"

definition MakeScript ::
  "int \<Rightarrow> 64 word \<Rightarrow> byte list \<Rightarrow> string \<Rightarrow> any list option
     \<Rightarrow> panic + (byte list \<times> goerror option)" where
  "MakeScript AllFlags CallHash scriptHash operation objs =
     (let sb = NewScriptBuilder;
          r = (case objs of
                 None \<Rightarrow> EmitDynamicCall AllFlags CallHash scriptHash operation sb
               | Some l \<Rightarrow>
                   if length l > 0 then EmitDynamicCallObj AllFlags CallHash scriptHash operation l sb
                   else EmitDynamicCall AllFlags CallHash scriptHash operation sb)
      in case r of Inl e \<Rightarrow> Inl e | Inr sb1 \<Rightarrow> Inr (ToArray sb1))"

subsection \<open>What a call appends\<close>

text \<open>
  \<open>extend sb r\<close> is the builder \<open>sb\<close> followed by the bytes and the errors of \<open>r\<close>;
  \<open>after sb r\<close> lifts it to the outcome of a call that can panic.
\<close>

definition extend :: "ScriptBuilder \<Rightarrow> ScriptBuilder \<Rightarrow> ScriptBuilder" where
  "extend sb r = \<lparr>buff = buff sb @ buff r, errs = errs sb @ errs r\<rparr>"

definition after :: "ScriptBuilder \<Rightarrow> panic + ScriptBuilder \<Rightarrow> panic + ScriptBuilder" where
  "after sb r = (case r of Inl e \<Rightarrow> Inl e | Inr x \<Rightarrow> Inr (extend sb x))"

section \<open>Properties\<close>

subsection \<open>Every call appends to the builder\<close>

lemmas opcode_defs =
  PUSHINT8_def PUSHINT16_def PUSHINT32_def PUSHINT64_def PUSHINT128_def PUSHINT256_def
  PUSHNULL_def PUSHDATA1_def PUSHDATA2_def PUSHDATA4_def PUSHM1_def PUSH0_def PUSH1_def
  JMP_def JMPLE_L_def CALL_def CALL_L_def SYSCALL_def DUP_def PACK_def NEWARRAY0_def
  NEWMAP_def SETITEM_def

lemma extend_New [simp]: "extend sb NewScriptBuilder = sb"
  by (simp add: extend_def NewScriptBuilder_def)

lemma extend_assoc: "extend (extend a b) c = extend a (extend b c)"
  by (simp add: extend_def)

lemma addError_extend: "addError e sb = extend sb (addError e NewScriptBuilder)"
  by (cases e) (simp_all add: addError_def extend_def NewScriptBuilder_def)

lemma Emit_eq:
  "Emit op arg sb = sb\<lparr>buff := buff sb @ op # (case arg of None \<Rightarrow> [] | Some bs \<Rightarrow> bs)\<rparr>"
  by (cases arg) (simp_all add: Emit_def addError_def Let_def)

lemma Emit_extend: "Emit op arg sb = extend sb (Emit op arg NewScriptBuilder)"
  by (simp add: Emit_eq extend_def NewScriptBuilder_def)

lemma EmitPushBigInt_extend:
  "EmitPushBigInt n sb = extend sb (EmitPushBigInt n NewScriptBuilder)"
  unfolding EmitPushBigInt_def Let_def
  by (simp add: Emit_extend [symmetric] addError_extend [symmetric])

lemma EmitPushBool_extend: "EmitPushBool b sb = extend sb (EmitPushBool b NewScriptBuilder)"
  unfolding EmitPushBool_def by (simp add: Emit_extend [symmetric])

lemma EmitPushBytes_extend: "EmitPushBytes d sb = extend sb (EmitPushBytes d NewScriptBuilder)"
  by (cases d)
    (simp_all add: EmitPushBytes_def Emit_eq addError_def extend_def NewScriptBuilder_def Let_def)

lemma EmitPushString_extend:
  "EmitPushString s sb = extend sb (EmitPushString s NewScriptBuilder)"
  unfolding EmitPushString_def by (rule EmitPushBytes_extend)

lemma EmitPushInteger_extend:
  "EmitPushInteger v sb = extend sb (EmitPushInteger v NewScriptBuilder)"
  by (cases v) (simp_all add: EmitPushBigInt_extend [symmetric] addError_extend [symmetric])

lemma EmitSysCall_extend: "EmitSysCall h sb = extend sb (EmitSysCall h NewScriptBuilder)"
  unfolding EmitSysCall_def by (rule Emit_extend)

lemma EmitPushSerializable_extend:
  "EmitPushSerializable x sb = extend sb (EmitPushSerializable x NewScriptBuilder)"
proof -
  obtain b e where be: "io_ToArray x = (b, e)" by (cases "io_ToArray x")
  have "EmitPushBytes b (addError e sb) =
        extend (addError e sb) (EmitPushBytes b NewScriptBuilder)"
    by (rule EmitPushBytes_extend)
  also have "\<dots> =
        extend sb (extend (addError e NewScriptBuilder) (EmitPushBytes b NewScriptBuilder))"
    by (subst addError_extend) (simp add: extend_assoc)
  also have "\<dots> = extend sb (EmitPushBytes b (addError e NewScriptBuilder))"
    by (simp add: EmitPushBytes_extend [symmetric])
  finally show ?thesis by (simp add: EmitPushSerializable_def be)
qed

subsection \<open>Small integers\<close>

text \<open>
  Claim C5. For every integer \<open>v\<close> from \<open>-1\<close> to \<open>16\<close>, \<open>EmitPushBigInt\<close> appends exactly
  one byte: the first op code of the small-integer range (\<open>PUSHM1\<close>) plus \<open>v + 1\<close>, and
  records no error.
\<close>

theorem EmitPushBigInt_small:
  assumes "- 1 \<le> v" and "v \<le> 16"
  shows "EmitPushBigInt v sb = sb\<lparr>buff := buff sb @ [PUSHM1 + word_of_int (v + 1)]\<rparr>
         \<and> errs (EmitPushBigInt v sb) = errs sb"
  using assms by (simp add: EmitPushBigInt_def Emit_eq PUSH0_def PUSHM1_def)

theorem EmitPushBigInt_small_witness:
  "- 1 \<le> (- 1 :: int) \<and> (- 1 :: int) \<le> 16
   \<and> EmitPushBigInt (- 1) NewScriptBuilder = \<lparr>buff = [0x0F], errs = []\<rparr>
   \<and> EmitPushBigInt 16 NewScriptBuilder = \<lparr>buff = [0x20], errs = []\<rparr>"
  using EmitPushBigInt_small [of "- 1" NewScriptBuilder]
        EmitPushBigInt_small [of 16 NewScriptBuilder]
  by (simp add: NewScriptBuilder_def PUSHM1_def)

subsection \<open>Fixed-width integers\<close>

lemma sint64_uint:
  "sint (v :: 64 word) = (if 2 ^ 63 \<le> uint v then uint v - 2 ^ 64 else uint v)"
proof -
  have lo: "- (2 ^ 63) \<le> sint v" using sint_ge [of v] by simp
  have hi: "sint v < 2 ^ 63" using sint_lt [of v] by simp
  have u: "uint v = sint v mod 2 ^ 64" using uint_sint [of v] by (simp add: take_bit_eq_mod)
  show ?thesis
  proof (cases "0 \<le> sint v")
    case True
    then have "sint v mod 2 ^ 64 = sint v" using hi by (simp add: mod_pos_pos_trivial)
    then show ?thesis using u hi by simp
  next
    case False
    then have "(sint v + 2 ^ 64) mod 2 ^ 64 = sint v + 2 ^ 64"
      using lo by (intro mod_pos_pos_trivial) simp_all
    then have "sint v mod 2 ^ 64 = sint v + 2 ^ 64" by simp
    then show ?thesis using u lo False by simp
  qed
qed

text \<open>
  Claim C10. For a \<open>uint64\<close> argument \<open>v\<close>, \<open>EmitPushInteger\<close> converts \<open>v\<close> to a signed
  64-bit integer first: from \<open>2^63\<close> on the integer encoded is \<open>v - 2^64\<close>, a negative
  number; below \<open>2^63\<close> it is \<open>v\<close> itself.
\<close>

theorem EmitPushInteger_uint64:
  "EmitPushInteger (Uint64V v) sb =
     EmitPushBigInt (if 2 ^ 63 \<le> uint v then uint v - 2 ^ 64 else uint v) sb"
  using sint64_uint [of v] by simp

theorem EmitPushInteger_uint64_witness:
  "EmitPushInteger (Uint64V (2 ^ 64 - 1)) NewScriptBuilder = EmitPushBigInt (- 1) NewScriptBuilder
   \<and> EmitPushInteger (Uint64V 5) NewScriptBuilder = EmitPushBigInt 5 NewScriptBuilder"
  using EmitPushInteger_uint64 [of "2 ^ 64 - 1" NewScriptBuilder]
        EmitPushInteger_uint64 [of 5 NewScriptBuilder]
  by simp

subsection \<open>Little-endian encodings\<close>

lemma unat_ucast_byte: "unat (ucast (x :: 'a::len word) :: 8 word) = unat x mod 256"
  by (simp add: unsigned_ucast_eq take_bit_eq_mod)

lemma unat_drop_byte:
  "unat (drop_bit n (x :: 'a::len word)) = unat x div 2 ^ n"
  unfolding unat_drop_bit_eq by (simp add: drop_bit_eq_div)

lemma le_nat_UInt16ToBytes: "le_nat (UInt16ToBytes x) = unat x"
proof -
  have b: "unat x < 65536" using unsigned_less [of x, where 'a=nat] by simp
  have "le_nat (UInt16ToBytes x) = unat x mod 256 + 256 * (unat x div 256 mod 256)"
    unfolding UInt16ToBytes_def le_nat.simps unat_ucast_byte unat_drop_byte by simp
  also have "unat x div 256 mod 256 = unat x div 256" using b by simp
  finally show ?thesis by simp
qed

lemma le_nat_UInt32ToBytes: "le_nat (UInt32ToBytes x) = unat x"
proof -
  define a where "a = unat x"
  define b where "b = a div 256"
  define c where "c = b div 256"
  define d where "d = c div 256"
  have bound: "a < 4294967296" using unsigned_less [of x, where 'a=nat] by (simp add: a_def)
  have c2: "a div 65536 = c" unfolding c_def b_def by (simp add: div_mult2_eq)
  have d2: "a div 16777216 = d" unfolding d_def c_def b_def by (simp add: div_mult2_eq)
  have dd: "d mod 256 = d" using bound d2 by simp
  have "le_nat (UInt32ToBytes x) =
        a mod 256 + 256 * (b mod 256 + 256 * (c mod 256 + 256 * (d mod 256)))"
    unfolding UInt32ToBytes_def le_nat.simps unat_ucast_byte unat_drop_byte
    using c2 d2 by (simp add: a_def b_def)
  also have "\<dots> = a mod 256 + 256 * (b mod 256 + 256 * (c mod 256 + 256 * d))"
    by (simp only: dd)
  also have "c mod 256 + 256 * d = c" unfolding d_def by simp
  also have "b mod 256 + 256 * c = b" unfolding c_def by simp
  also have "a mod 256 + 256 * b = a" unfolding b_def by simp
  finally show ?thesis by (simp add: a_def)
qed


lemma sint_uint_if:
  "sint (w :: 'a::len word) =
     (if 2 ^ (LENGTH('a) - 1) \<le> uint w then uint w - 2 ^ LENGTH('a) else uint w)"
proof -
  have p: "(2::int) ^ LENGTH('a) = 2 * 2 ^ (LENGTH('a) - 1)"
    by (metis len_gt_0 power_eq_if less_numeral_extra(3))
  have lo: "- (2 ^ (LENGTH('a) - 1)) \<le> sint w" by (rule sint_ge)
  have hi: "sint w < 2 ^ (LENGTH('a) - 1)" by (rule sint_lt)
  have u: "uint w = sint w mod 2 ^ LENGTH('a)"
    using uint_sint [of w] by (simp add: take_bit_eq_mod)
  show ?thesis
  proof (cases "0 \<le> sint w")
    case True
    then have "sint w mod 2 ^ LENGTH('a) = sint w"
      using hi p by (intro mod_pos_pos_trivial) simp_all
    then show ?thesis using u hi by simp
  next
    case False
    then have "(sint w + 2 ^ LENGTH('a)) mod 2 ^ LENGTH('a) = sint w + 2 ^ LENGTH('a)"
      using lo p by (intro mod_pos_pos_trivial) simp_all
    then have "sint w mod 2 ^ LENGTH('a) = sint w + 2 ^ LENGTH('a)" by simp
    then show ?thesis using u lo False p by simp
  qed
qed

lemma le_nat_le_int:
  "bs \<noteq> [] \<Longrightarrow> le_int bs = int (le_nat bs) - (if 128 \<le> last bs then 256 ^ length bs else 0)"
proof (induction bs rule: le_int.induct)
  case 1
  then show ?case by simp
next
  case (2 b)
  show ?case using sint_uint_if [of b] by (simp add: word_le_def)
next
  case (3 b v va)
  then show ?case by simp
qed

lemma length_UInt32ToBytes [simp]: "length (UInt32ToBytes x) = 4"
  by (simp add: UInt32ToBytes_def)

lemma le_int_UInt32ToBytes: "le_int (UInt32ToBytes x) = sint x"
proof -
  have top: "last (UInt32ToBytes x) = ucast (drop_bit 24 x)" by (simp add: UInt32ToBytes_def)
  have b: "unat x < 4294967296" using unsigned_less [of x, where 'a=nat] by simp
  have "unat (ucast (drop_bit 24 x) :: 8 word) = unat x div 16777216"
    using b by (simp add: unat_ucast_byte unat_drop_byte)
  then have t: "(128 \<le> (ucast (drop_bit 24 x) :: 8 word)) = (2147483648 \<le> unat x)"
    by (simp add: word_le_nat_alt less_eq_div_iff_mult_less_eq)
  have "le_int (UInt32ToBytes x) =
        int (unat x) - (if 2147483648 \<le> unat x then 4294967296 else 0)"
    using le_nat_le_int [of "UInt32ToBytes x"] t
    by (simp add: top le_nat_UInt32ToBytes) (simp add: UInt32ToBytes_def)
  also have "\<dots> = uint x - (if 2147483648 \<le> uint x then 4294967296 else 0)"
  proof -
    have a2: "int (unat x) = uint x" by (rule of_nat_unat)
    have "(2147483648 \<le> uint x) = (int 2147483648 \<le> int (unat x))"
      by (simp only: a2 of_nat_numeral)
    also have "\<dots> = (2147483648 \<le> unat x)" by (rule of_nat_le_iff)
    finally have a1: "(2147483648 \<le> unat x) = (2147483648 \<le> uint x)" by (rule sym)
    show ?thesis by (simp only: a1 a2)
  qed
  also have "\<dots> = sint x"
    using sint_uint_if [of x] by simp
  finally show ?thesis .
qed

lemma le_int_IntToBytes:
  "- (2 ^ 31) \<le> n \<Longrightarrow> n < 2 ^ 31 \<Longrightarrow> le_int (IntToBytes n) = n"
  unfolding IntToBytes_def le_int_UInt32ToBytes
  by (simp add: sint_sbintrunc' signed_take_bit_int_eq_self)

lemma sint_byte_of_int: "- 128 \<le> n \<Longrightarrow> n \<le> 127 \<Longrightarrow> sint (word_of_int n :: 8 word) = n"
  by (simp add: sint_sbintrunc' signed_take_bit_int_eq_self)

subsection \<open>Pushing bytes\<close>

text \<open>
  Claim C4, as stated: for every empty or absent byte sequence \<open>EmitPushBytes\<close> records
  an error and appends nothing. The source tests \<open>data == nil\<close> only: an empty slice
  that is not nil is pushed with the 1-byte length prefix \<open>0\<close>, and no error is recorded.
\<close>

theorem EmitPushBytes_empty_counterexample:
  "buff (EmitPushBytes (Some []) NewScriptBuilder) = [PUSHDATA1, 0]
   \<and> errs (EmitPushBytes (Some []) NewScriptBuilder) = []"
  by (simp add: EmitPushBytes_def Emit_eq NewScriptBuilder_def)

text \<open>
  Claim C4, amended: for the absent (nil) byte sequence \<open>EmitPushBytes\<close> records the
  error \<open>data is empty\<close> and appends no byte; for an empty sequence that is not nil it
  appends \<open>PUSHDATA1\<close> and the length byte \<open>0\<close> and records no error.
\<close>

theorem EmitPushBytes_nil_or_empty:
  "EmitPushBytes None sb = sb\<lparr>errs := errs sb @ [''data is empty'']\<rparr>
   \<and> EmitPushBytes (Some []) sb = sb\<lparr>buff := buff sb @ [PUSHDATA1, 0]\<rparr>"
  by (simp add: EmitPushBytes_def Emit_eq addError_def)

text \<open>
  Claim C6. For a byte sequence \<open>d\<close> of length \<open>l > 0\<close>, \<open>EmitPushBytes\<close> appends exactly
  one push-data op code, a length prefix and the bytes of \<open>d\<close>, and changes nothing else:
  \<open>PUSHDATA1\<close> and one byte if \<open>l < 256\<close>, \<open>PUSHDATA2\<close> and two bytes if \<open>l < 65536\<close>,
  else \<open>PUSHDATA4\<close> and four bytes. The prefix read little-endian is \<open>l\<close> (for a length
  from \<open>2^32\<close> on, which four bytes cannot hold, it is the low 32 bits of \<open>l\<close>).
\<close>

theorem EmitPushBytes_framing:
  assumes "d \<noteq> []"
  shows "\<exists>op prefix.
           EmitPushBytes (Some d) sb = sb\<lparr>buff := buff sb @ [op] @ prefix @ d\<rparr>
         \<and> (length d < 256 \<longrightarrow> op = PUSHDATA1 \<and> length prefix = 1)
         \<and> (256 \<le> length d \<and> length d < 65536 \<longrightarrow> op = PUSHDATA2 \<and> length prefix = 2)
         \<and> (65536 \<le> length d \<longrightarrow> op = PUSHDATA4 \<and> length prefix = 4)
         \<and> le_nat prefix = length d mod 2 ^ 32
         \<and> (length d < 2 ^ 32 \<longrightarrow> le_nat prefix = length d)"
proof -
  consider (a) "length d < 256" | (b) "256 \<le> length d" "length d < 65536"
    | (c) "65536 \<le> length d" by linarith
  then show ?thesis
  proof cases
    case a
    have "EmitPushBytes (Some d) sb = sb\<lparr>buff := buff sb @ [PUSHDATA1] @ [of_nat (length d)] @ d\<rparr>"
      using a by (simp add: EmitPushBytes_def Emit_eq)
    moreover have "le_nat [of_nat (length d) :: byte] = length d"
      using a by (simp add: unat_of_nat)
    ultimately show ?thesis using a by (intro exI [of _ PUSHDATA1] exI [of _ "[of_nat (length d)]"]) simp
  next
    case b
    have "EmitPushBytes (Some d) sb =
          sb\<lparr>buff := buff sb @ [PUSHDATA2] @ UInt16ToBytes (of_nat (length d)) @ d\<rparr>"
      using b by (simp add: EmitPushBytes_def Emit_eq)
    moreover have "le_nat (UInt16ToBytes (of_nat (length d))) = length d"
      using b by (simp add: le_nat_UInt16ToBytes unat_of_nat)
    moreover have "length (UInt16ToBytes (of_nat (length d))) = 2"
      by (simp add: UInt16ToBytes_def)
    ultimately show ?thesis using b
      by (intro exI [of _ PUSHDATA2] exI [of _ "UInt16ToBytes (of_nat (length d))"]) simp
  next
    case c
    have "EmitPushBytes (Some d) sb =
          sb\<lparr>buff := buff sb @ [PUSHDATA4] @ UInt32ToBytes (of_nat (length d)) @ d\<rparr>"
      using c by (simp add: EmitPushBytes_def Emit_eq)
    moreover have "le_nat (UInt32ToBytes (of_nat (length d))) = length d mod 2 ^ 32"
      by (simp add: le_nat_UInt32ToBytes unat_of_nat)
    ultimately show ?thesis using c
      by (intro exI [of _ PUSHDATA4] exI [of _ "UInt32ToBytes (of_nat (length d))"]) simp
  qed
qed


theorem EmitPushBytes_framing_witness:
  "[1, 2, 3 :: byte] \<noteq> []
   \<and> EmitPushBytes (Some [1, 2, 3]) NewScriptBuilder = \<lparr>buff = [0x0C, 3, 1, 2, 3], errs = []\<rparr>"
  using EmitPushBytes_framing [of "[1, 2, 3]" NewScriptBuilder]
  by (simp add: EmitPushBytes_def Emit_eq NewScriptBuilder_def PUSHDATA1_def)

text \<open>The example of the spec: 300 bytes take the 2-byte prefix \<open>0x2C 0x01\<close>.\<close>

lemma EmitPushBytes_300:
  "EmitPushBytes (Some (replicate 300 b)) NewScriptBuilder
     = \<lparr>buff = [PUSHDATA2, 0x2C, 0x01] @ replicate 300 b, errs = []\<rparr>"
  by (simp add: EmitPushBytes_def Emit_eq NewScriptBuilder_def UInt16ToBytes_def)

subsection \<open>Jumps\<close>

lemma length_IntToBytes [simp]: "length (IntToBytes n) = 4"
  by (simp add: IntToBytes_def)

text \<open>
  Claim C7. \<open>EmitJump\<close> records an error for every op code outside the range from \<open>JMP\<close>
  to \<open>JMPLE_L\<close> (and none inside it). For an even (short-form) op code and an offset
  outside \<open>[-128, 127]\<close> it appends the op code plus one and the offset in four
  little-endian bytes; for an offset inside that range it appends the op code itself and
  one offset byte; for an odd (long-form) op code it always appends the op code and the
  offset in four little-endian bytes.
\<close>

theorem EmitJump_forms:
  "(op < JMP \<or> JMPLE_L < op \<longrightarrow>
      errs (EmitJump op offset sb) = errs sb @ [''argument out of range: invalid OpCode''])
   \<and> (JMP \<le> op \<and> op \<le> JMPLE_L \<longrightarrow> errs (EmitJump op offset sb) = errs sb)
   \<and> (even (uint op) \<and> (offset < - 128 \<or> 127 < offset) \<longrightarrow>
        buff (EmitJump op offset sb) = buff sb @ (op + 1) # IntToBytes offset)
   \<and> (even (uint op) \<and> - 128 \<le> offset \<and> offset \<le> 127 \<longrightarrow>
        buff (EmitJump op offset sb) = buff sb @ [op, word_of_int offset]
        \<and> sint (word_of_int offset :: byte) = offset)
   \<and> (odd (uint op) \<longrightarrow> buff (EmitJump op offset sb) = buff sb @ op # IntToBytes offset)
   \<and> length (IntToBytes offset) = 4
   \<and> (- (2 ^ 31) \<le> offset \<and> offset < 2 ^ 31 \<longrightarrow> le_int (IntToBytes offset) = offset)"
proof -
  have odd_succ: "odd (uint (op + 1))" if "even (uint op)"
  proof -
    have "uint (op + 1) = (uint op + 1) mod 256" by (simp add: uint_word_ariths)
    moreover have "even ((uint op + 1) mod 256) = even (uint op + 1)"
      by (rule dvd_mod_iff) simp
    ultimately show ?thesis using that by simp
  qed
  have e1: "op < JMP \<or> JMPLE_L < op \<longrightarrow>
      errs (EmitJump op offset sb) = errs sb @ [''argument out of range: invalid OpCode'']"
    by (auto simp: EmitJump_def Let_def Emit_eq addError_def)
  have e2: "JMP \<le> op \<and> op \<le> JMPLE_L \<longrightarrow> errs (EmitJump op offset sb) = errs sb"
    by (auto simp: EmitJump_def Let_def Emit_eq addError_def)
  have b1: "even (uint op) \<and> (offset < - 128 \<or> 127 < offset) \<longrightarrow>
        buff (EmitJump op offset sb) = buff sb @ (op + 1) # IntToBytes offset"
    using odd_succ by (auto simp: EmitJump_def Let_def Emit_eq addError_def even_iff_mod_2_eq_zero)
  have b2: "even (uint op) \<and> - 128 \<le> offset \<and> offset \<le> 127 \<longrightarrow>
        buff (EmitJump op offset sb) = buff sb @ [op, word_of_int offset]
        \<and> sint (word_of_int offset :: byte) = offset"
    by (auto simp: EmitJump_def Let_def Emit_eq addError_def even_iff_mod_2_eq_zero
        sint_byte_of_int)
  have b3: "odd (uint op) \<longrightarrow> buff (EmitJump op offset sb) = buff sb @ op # IntToBytes offset"
    by (auto simp: EmitJump_def Let_def Emit_eq addError_def even_iff_mod_2_eq_zero)
  show ?thesis using e1 e2 b1 b2 b3 le_int_IntToBytes [of offset] by simp
qed

theorem EmitJump_forms_witness:
  "EmitJump JMP 200 NewScriptBuilder = \<lparr>buff = [0x23, 0xC8, 0, 0, 0], errs = []\<rparr>
   \<and> EmitJump JMP 100 NewScriptBuilder = \<lparr>buff = [0x22, 0x64], errs = []\<rparr>
   \<and> EmitJump 0x23 (- 2) NewScriptBuilder = \<lparr>buff = [0x23, 0xFE, 0xFF, 0xFF, 0xFF], errs = []\<rparr>
   \<and> EmitJump 0x21 5 NewScriptBuilder
       = \<lparr>buff = [0x21, 5, 0, 0, 0], errs = [''argument out of range: invalid OpCode'']\<rparr>"
  using EmitJump_forms [of JMP 200 NewScriptBuilder] EmitJump_forms [of JMP 100 NewScriptBuilder]
    EmitJump_forms [of "0x23" "- 2" NewScriptBuilder] EmitJump_forms [of "0x21" 5 NewScriptBuilder]
  by (simp add: EmitJump_def Let_def Emit_eq addError_def NewScriptBuilder_def JMP_def JMPLE_L_def
      IntToBytes_def UInt32ToBytes_def)

end
